theory Spec2Isabelle
  imports Complex_Main
begin

section \<open>Numbers and arrays\<close>

text \<open>
  The simulator computes with JavaScript numbers. This development reads a finite number
  as a real: rounding, overflow, \<open>NaN\<close> and the infinities are outside the numeric
  model. Where the code inspects a value for being absent or not a number (the
  parameter validation of the router), the value is kept as a \<open>jsval\<close>.

  A JavaScript array allocated with \<open>new Array(n)\<close> has \<open>n\<close> holes; a hole reads as
  \<open>undefined\<close>. An array is a list of optional cells, \<open>None\<close> being the hole. Writing at
  an index beyond the end extends the array.
\<close>

type_synonym 'a jsarray = "'a option list"

definition new_Array :: "nat \<Rightarrow> 'a jsarray" where
  "new_Array n = replicate n None"

definition js_set :: "'a jsarray \<Rightarrow> nat \<Rightarrow> 'a \<Rightarrow> 'a jsarray" where
  "js_set xs i v =
     (if i < length xs then xs[i := Some v]
      else xs @ replicate (i - length xs) None @ [Some v])"

definition js_get :: "'a jsarray \<Rightarrow> nat \<Rightarrow> 'a option" where
  "js_get xs i = (if i < length xs then xs ! i else None)"

section \<open>The numerical integrator (numericalSolver.js)\<close>

type_synonym 'p odeFunc = "real \<Rightarrow> real list \<Rightarrow> 'p \<Rightarrow> real list"

text \<open>\<open>add(a, b, scale)\<close>: \<open>a.map((val, i) => val + b[i] * scale)\<close>.\<close>

definition add :: "real list \<Rightarrow> real list \<Rightarrow> real \<Rightarrow> real list" where
  "add a b scale = map (\<lambda>i. a ! i + b ! i * scale) [0..<length a]"

text \<open>The body of one pass of the integration loop: the four stages and the next state.\<close>

definition rk4_next :: "'p odeFunc \<Rightarrow> 'p \<Rightarrow> real \<Rightarrow> real \<Rightarrow> real list \<Rightarrow> real list" where
  "rk4_next odeFunc params dt t currentState =
     (let k1 = odeFunc t currentState params;
          k2 = odeFunc (t + 0.5 * dt) (add currentState k1 (0.5 * dt)) params;
          k3 = odeFunc (t + 0.5 * dt) (add currentState k2 (0.5 * dt)) params;
          k4 = odeFunc (t + dt) (add currentState k3 dt) params
      in map (\<lambda>j. currentState ! j + (dt / 6) * (k1 ! j + 2 * k2 ! j + 2 * k3 ! j + k4 ! j))
           [0..<length currentState])"

text \<open>
  The loop \<open>for (let i = 1; i < points; i++)\<close>, with the loop variables \<open>t\<close> and
  \<open>currentState\<close> and the two arrays it fills.
\<close>

function ode_loop ::
  "'p odeFunc \<Rightarrow> 'p \<Rightarrow> real \<Rightarrow> nat \<Rightarrow> nat \<Rightarrow> real \<Rightarrow> real list \<Rightarrow>
   real jsarray \<Rightarrow> real jsarray jsarray \<Rightarrow> real jsarray \<times> real jsarray jsarray" where
  "ode_loop odeFunc params dt points i t currentState time states =
     (if i < points then
        let nextState = rk4_next odeFunc params dt t currentState;
            t' = t + dt
        in ode_loop odeFunc params dt points (i + 1) t' nextState
             (js_set time i t') (js_set states i (map Some nextState))
      else (time, states))"
  by pat_completeness auto
termination
  by (relation "measure (\<lambda>(odeFunc, params, dt, points, i, t, currentState, time, states). points - i)") auto

declare ode_loop.simps [simp del]

record ode_result =
  ode_time :: "real jsarray"
  ode_ys :: "real jsarray list"

text \<open>
  \<open>solveODE\<close>. The result object has the property \<open>time\<close> and one property
  \<open>y0, y1, ...\<close> for each component of the initial state; \<open>ode_ys\<close> lists them in
  this order. \<open>states.map(state => state[j])\<close> keeps a hole of \<open>states\<close> a hole.
\<close>

definition solveODE ::
  "'p odeFunc \<Rightarrow> real list \<Rightarrow> 'p \<Rightarrow> real \<Rightarrow> real \<Rightarrow> nat \<Rightarrow> ode_result" where
  "solveODE odeFunc initialState params tStart tEnd points =
     (let dt = (tEnd - tStart) / (real points - 1);
          time0 = new_Array points;
          states0 = map (\<lambda>i. Some (new_Array (length initialState))) [0..<points];
          time1 = js_set time0 0 tStart;
          states1 = js_set states0 0 (map Some initialState);
          (time, states) = ode_loop odeFunc params dt points 1 tStart initialState time1 states1
      in \<lparr> ode_time = time,
           ode_ys = map (\<lambda>j. map (\<lambda>state. case state of None \<Rightarrow> None
                                              | Some row \<Rightarrow> js_get row j) states)
                      [0..<length initialState] \<rparr>)"

text \<open>
  The trajectory the integrator is meant to store: the initial state, and each later
  state the RK4 update of the one before, taken at the time of the one before.
\<close>

primrec rk4_traj :: "'p odeFunc \<Rightarrow> 'p \<Rightarrow> real \<Rightarrow> real \<Rightarrow> real list \<Rightarrow> nat \<Rightarrow> real list" where
  "rk4_traj odeFunc params h t0 s0 0 = s0"
| "rk4_traj odeFunc params h t0 s0 (Suc n) =
     rk4_next odeFunc params h (t0 + real n * h) (rk4_traj odeFunc params h t0 s0 n)"




section \<open>Parameter sets and circuit definitions\<close>

text \<open>
  A value of a parameter object's property, as the validation sees it: a finite number,
  \<open>NaN\<close> or an infinity. An absent property (\<open>undefined\<close>) is \<open>None\<close> in the map.
\<close>

datatype jsval = Num real | NaN | PosInf | NegInf

record paramset =
  nums :: "string \<rightharpoonup> jsval"
  inputType :: string

text \<open>
  Reading a property as a number of the numeric model. The reading of an absent or
  non-finite property is left unspecified: nothing is proved about a computation that
  uses one.
\<close>

fun the_num :: "jsval option \<Rightarrow> real" where
  "the_num (Some (Num x)) = x"

definition num :: "paramset \<Rightarrow> string \<Rightarrow> real" where
  "num p k = the_num (nums p k)"

text \<open>The object spread \<open>{ ...params, k: x }\<close>.\<close>

definition set_num :: "paramset \<Rightarrow> string \<Rightarrow> real \<Rightarrow> paramset" where
  "set_num p k x = p\<lparr>nums := (nums p)(k \<mapsto> Num x)\<rparr>"

text \<open>\<open>isNaN\<close> on a property value that is present.\<close>

fun isNaN :: "jsval \<Rightarrow> bool" where
  "isNaN NaN = True"
| "isNaN _ = False"

text \<open>
  The fields of a circuit definition (circuitDefinitions.js) that the engine reads. The
  application stores the definition's key in the field \<open>id\<close>, here \<open>cid\<close>.
\<close>

record circuit =
  cid :: string
  order :: nat
  params :: "string list"
  solver :: string
  transferFunction :: string

text \<open>\<open>String.prototype.includes\<close>: the argument occurs as a contiguous substring.\<close>

primrec str_includes :: "string \<Rightarrow> string \<Rightarrow> bool" where
  "str_includes [] sub = (sub = [])"
| "str_includes (c # cs) sub = (take (length sub) (c # cs) = sub \<or> str_includes cs sub)"

definition circuitDefinitions :: "circuit list" where
  "circuitDefinitions =
    [\<lparr>cid = ''1-rc-charge'', order = 1, params = [''V'', ''R'', ''C''],
      solver = ''solveRcCharge'', transferFunction = ''1 / (1 + sRC)''\<rparr>,
     \<lparr>cid = ''1-rl-energize'', order = 1, params = [''V'', ''R'', ''L''],
      solver = ''solveRlEnergize'', transferFunction = ''R / (R + sL)''\<rparr>,
     \<lparr>cid = ''2-rlc-series'', order = 2, params = [''V'', ''R'', ''L'', ''C''],
      solver = ''solveRlcSeries'', transferFunction = ''(sRC) / (s^2LC + sRC + 1)''\<rparr>,
     \<lparr>cid = ''1-rc-discharge'', order = 1, params = [''V0'', ''R'', ''C''],
      solver = ''solveRcDischarge'', transferFunction = ''1 / (1 + sRC)''\<rparr>,
     \<lparr>cid = ''1-rl-deenergize'', order = 1, params = [''I0'', ''R'', ''L''],
      solver = ''solveRlDeEnergize'', transferFunction = ''R / (R + sL)''\<rparr>,
     \<lparr>cid = ''2-rlc-parallel'', order = 2, params = [''V'', ''R'', ''L'', ''C''],
      solver = ''solveRlcParallel'', transferFunction = ''sL / (s^2LC + sL/R + 1)''\<rparr>,
     \<lparr>cid = ''3-rllc-series'', order = 3, params = [''V'', ''R'', ''L1'', ''L2'', ''C''],
      solver = ''solveRllcSeries'', transferFunction = ''1 / (s^2*C*(L1+L2) + s*C*R + 1)''\<rparr>,
     \<lparr>cid = ''3-rlcc-series'', order = 3, params = [''V'', ''R'', ''L'', ''C1'', ''C2''],
      solver = ''solve3RlccSeries'', transferFunction = ''1 / (s^2*L*C_eq + s*R*C_eq + 1)''\<rparr>]"

section \<open>The circuit models (stateSpaceModels.js)\<close>

definition getVin :: "real \<Rightarrow> paramset \<Rightarrow> real" where
  "getVin t p =
     (if inputType p = ''Step'' then (if t \<ge> 0 then num p ''V'' else 0)
      else if inputType p = ''Sine'' then
        (let w = 2 * pi * num p ''Freq'' in if t \<ge> 0 then num p ''V'' * sin (w * t) else 0)
      else if inputType p = ''Ramp'' then (if t \<ge> 0 then num p ''V'' * t else 0)
      else 0)"

definition rcOde :: "paramset odeFunc" where
  "rcOde t state p =
     (let Vc = state ! 0; Vin = getVin t p
      in [(Vin - Vc) / (num p ''R'' * num p ''C'')])"

definition rlOde :: "paramset odeFunc" where
  "rlOde t state p =
     (let iL = state ! 0; Vin = getVin t p
      in [(Vin - iL * num p ''R'') / num p ''L''])"

definition rlcOde :: "paramset odeFunc" where
  "rlcOde t state p =
     (let Vc = state ! 0; iL = state ! 1; Vin = getVin t p;
          dVc_dt = iL / num p ''C'';
          diL_dt = (Vin - Vc - iL * num p ''R'') / num p ''L''
      in [dVc_dt, diL_dt])"

definition rllcOde :: "paramset odeFunc" where
  "rllcOde t state p =
     (let L_eq = num p ''L1'' + num p ''L2''
      in rlcOde t state (set_num p ''L'' L_eq))"

definition rlccOde :: "paramset odeFunc" where
  "rlccOde t state p =
     (let iL = state ! 0; Vc1 = state ! 1; Vc2 = state ! 2; Vin = getVin t p;
          diL_dt = (Vin - Vc1 - Vc2 - iL * num p ''R'') / num p ''L'';
          dVc1_dt = iL / num p ''C1'';
          dVc2_dt = iL / num p ''C2''
      in [diL_dt, dVc1_dt, dVc2_dt])"

definition rlcParallelOde :: "paramset odeFunc" where
  "rlcParallelOde t state p =
     (let Vc = state ! 0; iL = state ! 1; I_in = getVin t p;
          dVc_dt = (I_in - Vc / num p ''R'' - iL) / num p ''C'';
          diL_dt = Vc / num p ''L''
      in [dVc_dt, diL_dt])"

text \<open>
  A registered model. \<open>func\<close> may be missing from an entry (the router tests for it);
  \<open>initialState\<close> is an array or a function of the parameters; \<open>map\<close> turns the
  integrator's arrays \<open>time, y0, y1, ...\<close> and the parameters into the named traces.
\<close>

datatype initial = ConstState "real list" | StateOf "paramset \<Rightarrow> real list"

type_synonym traces = "(string \<times> real list) list"

record model =
  func :: "paramset odeFunc option"
  initialState :: initial
  map_out :: "real list \<Rightarrow> real list list \<Rightarrow> paramset \<Rightarrow> traces"

text \<open>\<open>arr.map((x, i) => g x i)\<close> on an array without holes.\<close>

definition mapi :: "('a \<Rightarrow> nat \<Rightarrow> 'b) \<Rightarrow> 'a list \<Rightarrow> 'b list" where
  "mapi g xs = map (\<lambda>i. g (xs ! i) i) [0..<length xs]"

definition models :: "string \<rightharpoonup> model" where
  "models = map_of
    [(''solveRcCharge'',
      \<lparr>func = Some rcOde, initialState = ConstState [0],
       map_out = (\<lambda>time ys p.
         [(''Vc'', ys ! 0),
          (''i'', mapi (\<lambda>t i. (getVin t p - ys ! 0 ! i) / num p ''R'') time)])\<rparr>),
     (''solveRcDischarge'',
      \<lparr>func = Some rcOde, initialState = StateOf (\<lambda>p. [num p ''V0'']),
       map_out = (\<lambda>time ys p.
         [(''Vc'', ys ! 0),
          (''i'', map (\<lambda>t. (- num p ''V0'' / num p ''R'') * exp (- t / (num p ''R'' * num p ''C''))) time)])\<rparr>),
     (''solveRlEnergize'',
      \<lparr>func = Some rlOde, initialState = ConstState [0],
       map_out = (\<lambda>time ys p.
         [(''iL'', ys ! 0),
          (''Vl'', mapi (\<lambda>t i. getVin t p - ys ! 0 ! i * num p ''R'') time)])\<rparr>),
     (''solveRlDeEnergize'',
      \<lparr>func = Some rlOde, initialState = StateOf (\<lambda>p. [num p ''I0'']),
       map_out = (\<lambda>time ys p.
         [(''iL'', ys ! 0),
          (''Vr'', map (\<lambda>i. - i * num p ''R'') (ys ! 0))])\<rparr>),
     (''solveRlcSeries'',
      \<lparr>func = Some rlcOde, initialState = ConstState [0, 0],
       map_out = (\<lambda>time ys p.
         [(''Vc'', ys ! 0), (''i'', ys ! 1),
          (''Vl'', mapi (\<lambda>t i. getVin t p - ys ! 0 ! i - ys ! 1 ! i * num p ''R'') time),
          (''Vr'', map (\<lambda>i. i * num p ''R'') (ys ! 1))])\<rparr>),
     (''solveRllcSeries'',
      \<lparr>func = Some rllcOde, initialState = ConstState [0, 0],
       map_out = (\<lambda>time ys p.
         [(''Vc'', ys ! 0), (''i'', ys ! 1),
          (''Vl_total'', mapi (\<lambda>t i. getVin t p - ys ! 0 ! i - ys ! 1 ! i * num p ''R'') time),
          (''Vr'', map (\<lambda>i. i * num p ''R'') (ys ! 1))])\<rparr>),
     (''solve3RlccSeries'',
      \<lparr>func = Some rlccOde, initialState = ConstState [0, 0, 0],
       map_out = (\<lambda>time ys p.
         [(''i'', ys ! 0), (''Vc1'', ys ! 1), (''Vc2'', ys ! 2),
          (''Vc_total'', mapi (\<lambda>v i. v + ys ! 2 ! i) (ys ! 1)),
          (''Vr'', map (\<lambda>i. i * num p ''R'') (ys ! 0))])\<rparr>),
     (''solveRlcParallel'',
      \<lparr>func = Some rlcParallelOde, initialState = ConstState [0, 0],
       map_out = (\<lambda>time ys p.
         [(''Vc'', ys ! 0), (''iL'', ys ! 1),
          (''iR'', map (\<lambda>v. v / num p ''R'') (ys ! 0)),
          (''iC'', mapi (\<lambda>t i. getVin t p - ys ! 0 ! i / num p ''R'' - ys ! 1 ! i) time)])\<rparr>)]"

section \<open>The frequency-response evaluator\<close>

definition generateFrequencyVector :: "real \<Rightarrow> real \<Rightarrow> nat \<Rightarrow> real list" where
  "generateFrequencyVector fMin fMax points =
     (let logMin = log 10 fMin;
          logMax = log 10 fMax;
          logStep = (logMax - logMin) / (real points - 1)
      in map (\<lambda>i. 10 powr (logMin + real i * logStep)) [0..<points])"

text \<open>Complex numbers as pairs (real part, imaginary part), as the code has them.\<close>

type_synonym cpair = "real \<times> real"

definition cAdd :: "cpair \<Rightarrow> cpair \<Rightarrow> cpair" where
  "cAdd a b = (fst a + fst b, snd a + snd b)"

definition cDiv :: "cpair \<Rightarrow> cpair \<Rightarrow> cpair" where
  "cDiv a b =
     (let ar = fst a; ai = snd a; br = fst b; bi = snd b;
          den = br * br + bi * bi
      in if den = 0 then (0, 0)
         else ((ar * br + ai * bi) / den, (ai * br - ar * bi) / den))"

definition cMag :: "cpair \<Rightarrow> real" where
  "cMag a = sqrt ((fst a)\<^sup>2 + (snd a)\<^sup>2)"

text \<open>\<open>Math.atan2(y, x)\<close> on real numbers.\<close>

definition atan2 :: "real \<Rightarrow> real \<Rightarrow> real" where
  "atan2 y x =
     (if x > 0 then arctan (y / x)
      else if x < 0 \<and> y \<ge> 0 then arctan (y / x) + pi
      else if x < 0 \<and> y < 0 then arctan (y / x) - pi
      else if y > 0 then pi / 2
      else if y < 0 then - pi / 2
      else 0)"

definition cPhase :: "cpair \<Rightarrow> real" where
  "cPhase a = atan2 (snd a) (fst a)"

record bode =
  b_freq :: "real list"
  b_mag :: "real list"
  b_phase :: "real list"

text \<open>
  The closed form \<open>H(j\<omega>)\<close> that the \<open>switch\<close> selects for a transfer-function tag;
  \<open>None\<close> is the \<open>default\<close> branch.
\<close>

definition transfer :: "circuit \<Rightarrow> paramset \<Rightarrow> (real \<Rightarrow> cpair) option" where
  "transfer c p =
     (let tf = transferFunction c;
          R = num p ''R''; L = num p ''L''; C = num p ''C''
      in if tf = ''1 / (1 + sRC)'' then Some (\<lambda>w. cDiv (1, 0) (1, w * R * C))
         else if tf = ''R / (R + sL)'' then Some (\<lambda>w. cDiv (R, 0) (R, w * L))
         else if tf = ''(sRC) / (s^2LC + sRC + 1)'' then
           Some (\<lambda>w. let s_sq_LC = (-1 * w\<^sup>2 * L * C, 0);
                        s_RC = (0, w * R * C);
                        H_num = s_RC;
                        H_den = cAdd (cAdd s_sq_LC s_RC) (1, 0)
                    in cDiv H_num H_den)
         else if tf = ''sL / (s^2LC + sL/R + 1)'' then
           Some (\<lambda>w. let H_num = (0, w * L);
                        H_den = (1 - w\<^sup>2 * L * C, w * L / R)
                    in cDiv H_num H_den)
         else if tf = ''1 / (s^2*C*(L1+L2) + s*C*R + 1)'' then
           (let L_eq = num p ''L1'' + num p ''L2''
            in Some (\<lambda>w. let H_den = (1 - w\<^sup>2 * L_eq * C, w * R * C);
                            H_num = (1, 0)
                        in cDiv H_num H_den))
         else if tf = ''1 / (s^2*L*C_eq + s*R*C_eq + 1)'' then
           (let C_eq = (num p ''C1'' * num p ''C2'') / (num p ''C1'' + num p ''C2'')
            in Some (\<lambda>w. let H_den = (1 - w\<^sup>2 * L * C_eq, w * R * C_eq);
                            H_num = (1, 0)
                        in cDiv H_num H_den))
         else None)"

text \<open>
  \<open>solveFrequencyResponse\<close>. Both arrays start filled with zeros; a recognised tag
  overwrites every entry, the \<open>default\<close> branch fills them with zeros again. Nothing in
  its \<open>try\<close> block raises on numbers, so the result always carries status
  \<open>complete\<close> and the \<open>catch\<close> branch is left out.
\<close>

definition solveFrequencyResponse :: "circuit \<Rightarrow> paramset \<Rightarrow> bode" where
  "solveFrequencyResponse c p =
     (let freq = generateFrequencyVector 1 1000000 500;
          omega = map (\<lambda>f. 2 * pi * f) freq
      in case transfer c p of
           Some H \<Rightarrow>
             \<lparr>b_freq = freq,
              b_mag = map (\<lambda>w. 20 * log 10 (cMag (H w))) omega,
              b_phase = map (\<lambda>w. cPhase (H w) * 180 / pi) omega\<rparr>
         | None \<Rightarrow>
             \<lparr>b_freq = freq,
              b_mag = replicate (length freq) 0,
              b_phase = replicate (length freq) 0\<rparr>)"


section \<open>The pole and stability analyzer\<close>

record pole =
  re :: real
  im :: real

record stability =
  status :: string
  details :: string

record pz =
  pz_poles :: "pole list"
  pz_stabilityStatus :: stability

definition tol :: real where
  "tol = 1 / 10 ^ 9"

text \<open>\<open>calculatePolesAndStability({ R, L, C })\<close>.\<close>

definition calculatePolesAndStability :: "real \<Rightarrow> real \<Rightarrow> real \<Rightarrow> pz" where
  "calculatePolesAndStability R L C =
     (if L = 0 \<or> C = 0 \<or> L \<le> 0 \<or> C \<le> 0 then
        \<lparr>pz_poles = [],
         pz_stabilityStatus = \<lparr>status = ''N/A'', details = ''L or C is zero or negative.''\<rparr>\<rparr>
      else
        let b = R / L;
            c = 1 / (L * C);
            disc = b * b - 4 * c;
            roots =
              (if disc \<ge> 0 then
                 let r1 = (- b + sqrt disc) / 2;
                     r2 = (- b - sqrt disc) / 2
                 in [\<lparr>re = r1, im = 0\<rparr>, \<lparr>re = r2, im = 0\<rparr>]
               else
                 let realPart = - b / 2;
                     imagPart = sqrt (- disc) / 2
                 in [\<lparr>re = realPart, im = imagPart\<rparr>, \<lparr>re = realPart, im = - imagPart\<rparr>]);
            hasUnstablePole = list_ex (\<lambda>p. re p > tol) roots;
            imagAxisPoles = filter (\<lambda>p. \<bar>re p\<bar> \<le> tol) roots;
            isRepeated = (length imagAxisPoles > 1 \<and>
              (\<bar>im (imagAxisPoles ! 0) - im (imagAxisPoles ! 1)\<bar> < tol \<or>
               \<bar>im (imagAxisPoles ! 0) + im (imagAxisPoles ! 1)\<bar> < tol))
        in \<lparr>pz_poles = roots,
            pz_stabilityStatus =
              (if hasUnstablePole then
                 \<lparr>status = ''Unstable'', details = ''At least one pole with Re(p) > 0.''\<rparr>
               else if length imagAxisPoles > 0 then
                 (if isRepeated then
                    \<lparr>status = ''Unstable'', details = ''Repeated poles on imaginary axis.''\<rparr>
                  else
                    \<lparr>status = ''Marginally Stable'',
                     details = ''Simple poles on imaginary axis (oscillatory).''\<rparr>)
               else \<lparr>status = ''Stable'', details = ''All poles Re(p) < 0.''\<rparr>)\<rparr>)"

section \<open>The simulation router\<close>

record sim =
  traces :: traces
  time :: "real list"
  freq :: "real list"
  mag :: "real list"
  phase :: "real list"
  finalValue :: real
  poles :: "pole list option"
  zeros :: "pole list"
  stabilityStatus :: "stability option"

text \<open>
  The result of \<open>solve\<close>: its \<open>status\<close> is the constructor, \<open>Unimplemented\<close> and
  \<open>Error\<close> carry the message.
\<close>

datatype result = Unimplemented string | Error string | Complete sim

fun result_status :: "result \<Rightarrow> string" where
  "result_status (Unimplemented _) = ''unimplemented''"
| "result_status (Error _) = ''error''"
| "result_status (Complete _) = ''complete''"

text \<open>The validation loop: the first required parameter that is absent or \<open>NaN\<close>.\<close>

definition invalid_param :: "circuit \<Rightarrow> paramset \<Rightarrow> string option" where
  "invalid_param c p =
     find (\<lambda>param. case nums p param of None \<Rightarrow> True | Some v \<Rightarrow> isNaN v) (params c)"

text \<open>
  Poles and stability as the router computes them (part 3 of \<open>solve\<close>); \<open>None\<close> is
  \<open>null\<close>.
\<close>

definition router_poles :: "circuit \<Rightarrow> paramset \<Rightarrow> pole list option \<times> stability option" where
  "router_poles c p =
     (if order c = 2 \<or> order c = 3 then
        let R_eq = num p ''R'';
            L_eq = (if str_includes (cid c) ''rllc-series''
                    then num p ''L1'' + num p ''L2'' else num p ''L'');
            C_eq = (if str_includes (cid c) ''rllc-series'' then num p ''C''
                    else if str_includes (cid c) ''rlcc-series'' then
                      (if num p ''C1'' + num p ''C2'' > 0
                       then (num p ''C1'' * num p ''C2'') / (num p ''C1'' + num p ''C2'')
                       else 0)
                    else num p ''C'');
            parallel =
              (if \<not> str_includes (cid c) ''rllc-series'' \<and> \<not> str_includes (cid c) ''rlcc-series''
                  \<and> str_includes (cid c) ''rlc-parallel'' \<and> R_eq > 0 \<and> L_eq > 0 \<and> C_eq > 0
               then
                 let b_p = 1 / (R_eq * C_eq);
                     c_p = 1 / (L_eq * C_eq);
                     disc_p = b_p * b_p - 4 * c_p;
                     ps =
                       (if disc_p \<ge> 0 then
                          let r1 = (- b_p + sqrt disc_p) / 2;
                              r2 = (- b_p - sqrt disc_p) / 2
                          in [\<lparr>re = r1, im = 0\<rparr>, \<lparr>re = r2, im = 0\<rparr>]
                        else
                          let realPart = - b_p / 2;
                              imagPart = sqrt (- disc_p) / 2
                          in [\<lparr>re = realPart, im = imagPart\<rparr>, \<lparr>re = realPart, im = - imagPart\<rparr>])
                 in (Some ps,
                     Some (if list_ex (\<lambda>q. re q > 1 / 10 ^ 9) ps
                           then \<lparr>status = ''Unstable'', details = ''At least one pole with Re(p) > 0.''\<rparr>
                           else \<lparr>status = ''Stable'', details = ''All poles Re(p) < 0.''\<rparr>))
               else (None, None))
        in if \<not> str_includes (cid c) ''rlc-parallel'' \<and> R_eq > 0 \<and> L_eq > 0 \<and> C_eq > 0 then
             let pzAnalysis = calculatePolesAndStability R_eq L_eq C_eq
             in (Some (pz_poles pzAnalysis), Some (pz_stabilityStatus pzAnalysis))
           else parallel
      else (None, None))"

definition router_zeros :: "circuit \<Rightarrow> pole list" where
  "router_zeros c =
     (if order c = 2 \<or> order c = 3 then
        (if transferFunction c = ''(sRC) / (s^2LC + sRC + 1)'' then [\<lparr>re = 0, im = 0\<rparr>]
         else if transferFunction c = ''sL / (s^2LC + sL/R + 1)'' then [\<lparr>re = 0, im = 0\<rparr>]
         else [])
      else [])"

definition router_finalValue :: "circuit \<Rightarrow> paramset \<Rightarrow> real" where
  "router_finalValue c p =
     (if inputType p = ''Step'' then
        let fv0 = 0;
            fv1 = (if str_includes (cid c) ''rc-charge'' \<or> str_includes (cid c) ''rlc-series''
                      \<or> str_includes (cid c) ''rllc-series'' \<or> str_includes (cid c) ''rlcc-series''
                   then num p ''V'' else fv0);
            fv2 = (if str_includes (cid c) ''rl-energize''
                   then (if num p ''R'' > 0 then num p ''V'' / num p ''R'' else 0) else fv1);
            fv3 = (if str_includes (cid c) ''rlc-parallel''
                   then num p ''V'' * num p ''R'' else fv2)
        in fv3
      else 0)"

text \<open>
  The body of the \<open>try\<close> block of \<open>solve\<close>. The integrator leaves no hole in its arrays
  (lemma \<open>solveODE_no_holes\<close>), so they are read as lists of numbers. The display
  strings \<open>analysis\<close> and \<open>tfString\<close> (number formatting) are left out. No operation of
  the block raises on numbers and strings, so the \<open>catch\<close> branch is left out as well.
\<close>

definition simulate :: "circuit \<Rightarrow> model \<Rightarrow> paramset odeFunc \<Rightarrow> paramset \<Rightarrow> sim" where
  "simulate c m f p =
     (let initial = (case initialState m of StateOf g \<Rightarrow> g p | ConstState s \<Rightarrow> s);
          odeResults = solveODE f initial p 0 (num p ''tEnd'') 1000;
          tm = map the (ode_time odeResults);
          ys = map (map the) (ode_ys odeResults);
          timeDomain = map_out m tm ys p;
          freqDomain = solveFrequencyResponse c p;
          pzs = router_poles c p
      in \<lparr>traces = timeDomain,
          time = tm,
          freq = b_freq freqDomain,
          mag = b_mag freqDomain,
          phase = b_phase freqDomain,
          finalValue = router_finalValue c p,
          poles = fst pzs,
          zeros = router_zeros c,
          stabilityStatus = snd pzs\<rparr>)"

text \<open>\<open>solve\<close>, with the model registry as a parameter.\<close>

definition solve_with :: "(string \<rightharpoonup> model) \<Rightarrow> circuit \<Rightarrow> paramset \<Rightarrow> result" where
  "solve_with registry c p =
     (case registry (solver c) of
        None \<Rightarrow> Unimplemented ''This circuit solver is not yet implemented.''
      | Some m \<Rightarrow>
          (case func m of
             None \<Rightarrow> Unimplemented ''This circuit solver is not yet implemented.''
           | Some f \<Rightarrow>
               (case invalid_param c p of
                  Some param \<Rightarrow> Error (''Invalid or missing parameter: '' @ param)
                | None \<Rightarrow> Complete (simulate c m f p))))"

definition solve :: "circuit \<Rightarrow> paramset \<Rightarrow> result" where
  "solve = solve_with models"

section \<open>The metrics calculator: settling time\<close>

text \<open>
  \<open>signal[i] < settleLower || signal[i] > settleUpper\<close>; beyond the end of \<open>signal\<close>
  the read is \<open>undefined\<close> and both comparisons are false.
\<close>

definition outside_band :: "real list \<Rightarrow> real \<Rightarrow> nat \<Rightarrow> bool" where
  "outside_band signal final i =
     (i < length signal \<and> (signal ! i < final * 0.98 \<or> signal ! i > final * 1.02))"

text \<open>
  The loop \<open>for (let i = len - 1; i >= 0; i--)\<close>; the last argument is \<open>i + 1\<close>. The
  result is \<open>tSettle\<close>, \<open>None\<close> for \<open>null\<close>.
\<close>

fun settle_scan :: "real list \<Rightarrow> real list \<Rightarrow> real \<Rightarrow> nat \<Rightarrow> real option" where
  "settle_scan tms signal final 0 = None"
| "settle_scan tms signal final (Suc i) =
     (if outside_band signal final i
      then Some (tms ! (if i + 1 < length tms then i + 1 else i))
      else settle_scan tms signal final i)"

text \<open>
  The value of \<open>metrics.settlingTime\<close> that \<open>calculateMetrics\<close> computes when the
  metric is requested; \<open>None\<close> is \<open>undefined\<close> (\<open>time[0]\<close> of an empty array).
  The array \<open>time\<close> is \<open>tms\<close> and \<open>finalValue\<close> is \<open>final\<close> here.
\<close>

definition settlingTime :: "real list \<Rightarrow> real list \<Rightarrow> real \<Rightarrow> real option" where
  "settlingTime tms signal final =
     (case settle_scan tms signal final (length tms) of
        None \<Rightarrow> (if tms = [] then None else Some (tms ! 0))
      | Some tSettle \<Rightarrow> Some tSettle)"

section \<open>Verification of the integrator\<close>

lemma rk4_traj_shift:
  "rk4_traj f p h t s (Suc n) = rk4_traj f p h (t + h) (rk4_next f p h t s) n"
proof (induction n)
  case 0 show ?case by simp
next
  case (Suc n)
  have e: "t + real (Suc n) * h = t + h + real n * h" by (simp add: algebra_simps)
  have "rk4_traj f p h t s (Suc (Suc n)) =
        rk4_next f p h (t + real (Suc n) * h) (rk4_traj f p h t s (Suc n))"
    by (rule rk4_traj.simps(2))
  also have "\<dots> = rk4_next f p h (t + h + real n * h) (rk4_traj f p h (t + h) (rk4_next f p h t s) n)"
    by (simp only: Suc e)
  also have "\<dots> = rk4_traj f p h (t + h) (rk4_next f p h t s) (Suc n)"
    by (rule rk4_traj.simps(2) [symmetric])
  finally show ?case .
qed

lemma length_rk4_next [simp]: "length (rk4_next f p h t s) = length s"
  by (simp add: rk4_next_def Let_def)

lemma length_rk4_traj [simp]: "length (rk4_traj f p h t s n) = length s"
  by (induction n) simp_all

lemma ode_loop_closed:
  "i \<le> points \<Longrightarrow> length tm = points \<Longrightarrow> length st = points \<Longrightarrow>
   ode_loop f p dt points i t cur tm st =
     (take i tm @ map (\<lambda>k. Some (t + real (Suc k - i) * dt)) [i..<points],
      take i st @ map (\<lambda>k. Some (map Some (rk4_traj f p dt t cur (Suc k - i)))) [i..<points])"
proof (induction f p dt points i t cur tm st rule: ode_loop.induct)
  case (1 f p dt points i t cur tm st)
  show ?case
  proof (cases "i < points")
    case False
    with "1.prems" have "i = points" by simp
    then show ?thesis using "1.prems" by (subst ode_loop.simps) simp
  next
    case True
    define nxt where "nxt = rk4_next f p dt t cur"
    define tm' where "tm' = js_set tm i (t + dt)"
    define st' where "st' = js_set st i (map Some nxt)"
    have tm': "tm' = tm[i := Some (t + dt)]" and st': "st' = st[i := Some (map Some nxt)]"
      using True "1.prems" by (simp_all add: tm'_def st'_def js_set_def)
    have IH: "ode_loop f p dt points (i + 1) (t + dt) nxt tm' st' =
       (take (i + 1) tm' @ map (\<lambda>k. Some (t + dt + real (Suc k - (i + 1)) * dt)) [i + 1..<points],
        take (i + 1) st' @ map (\<lambda>k. Some (map Some (rk4_traj f p dt (t + dt) nxt (Suc k - (i + 1))))) [i + 1..<points])"
      using "1.IH" [OF True nxt_def refl] True "1.prems"
      by (simp add: tm' st' tm'_def [symmetric] st'_def [symmetric] nxt_def [symmetric])
    have unf: "ode_loop f p dt points i t cur tm st = ode_loop f p dt points (i + 1) (t + dt) nxt tm' st'"
      using True by (subst ode_loop.simps) (simp add: Let_def nxt_def tm'_def st'_def)
    have tk1: "take (i + 1) tm' = take i tm @ [Some (t + dt)]"
      using True "1.prems" by (simp add: tm' take_Suc_conv_app_nth)
    have tk2: "take (i + 1) st' = take i st @ [Some (map Some nxt)]"
      using True "1.prems" by (simp add: st' take_Suc_conv_app_nth)
    have m1: "map (\<lambda>k. Some (t + dt + real (Suc k - (i + 1)) * dt)) [i + 1..<points]
            = map (\<lambda>k. Some (t + real (Suc k - i) * dt)) [i + 1..<points]"
      by (rule map_cong) (auto simp: algebra_simps Suc_diff_le)
    have m2: "map (\<lambda>k. Some (map Some (rk4_traj f p dt (t + dt) nxt (Suc k - (i + 1))))) [i + 1..<points]
            = map (\<lambda>k. Some (map Some (rk4_traj f p dt t cur (Suc k - i)))) [i + 1..<points]"
    proof (rule map_cong [OF refl])
      fix k assume "k \<in> set [i + 1..<points]"
      then have "Suc k - i = Suc (Suc k - (i + 1))" by auto
      then show "Some (map Some (rk4_traj f p dt (t + dt) nxt (Suc k - (i + 1)))) =
                 Some (map Some (rk4_traj f p dt t cur (Suc k - i)))"
        by (simp only: rk4_traj_shift nxt_def)
    qed
    have up: "[i..<points] = i # [i + 1..<points]"
      using True by (simp add: upt_conv_Cons)
    show ?thesis
      unfolding unf IH tk1 tk2 m1 m2 up by (simp add: nxt_def)
  qed
qed

lemma solveODE_closed:
  assumes "1 \<le> points"
  shows "solveODE f init p t0 t1 points =
    \<lparr> ode_time = map (\<lambda>k. Some (t0 + real k * ((t1 - t0) / (real points - 1)))) [0..<points],
      ode_ys = map (\<lambda>j. map (\<lambda>k. Some (rk4_traj f p ((t1 - t0) / (real points - 1)) t0 init k ! j))
                 [0..<points]) [0..<length init] \<rparr>"
proof -
  define h where "h = (t1 - t0) / (real points - 1)"
  define tm where "tm = js_set (new_Array points) 0 t0"
  define st where "st = js_set (map (\<lambda>i. Some (new_Array (length init))) [0..<points]) 0 (map Some init)"
  have ltm: "length tm = points" and lst: "length st = points"
    using assms by (simp_all add: tm_def st_def js_set_def new_Array_def)
  have tk1: "take 1 tm = [Some t0]"
  proof -
    have "take (Suc 0) tm = take 0 tm @ [tm ! 0]"
      using assms ltm by (intro take_Suc_conv_app_nth) simp
    moreover have "tm ! 0 = Some t0"
      using assms by (simp add: tm_def js_set_def new_Array_def)
    ultimately show ?thesis by simp
  qed
  have tk2: "take 1 st = [Some (map Some init)]"
  proof -
    have "take (Suc 0) st = take 0 st @ [st ! 0]"
      using assms lst by (intro take_Suc_conv_app_nth) simp
    moreover have "st ! 0 = Some (map Some init)"
      using assms by (simp add: st_def js_set_def)
    ultimately show ?thesis by simp
  qed
  have up: "[0..<points] = 0 # [1..<points]"
    using assms by (simp add: upt_conv_Cons)
  have loop: "ode_loop f p h points 1 t0 init tm st =
      (map (\<lambda>k. Some (t0 + real k * h)) [0..<points],
       map (\<lambda>k. Some (map Some (rk4_traj f p h t0 init k))) [0..<points])"
    unfolding ode_loop_closed [OF assms ltm lst] tk1 tk2 up by simp
  have cell: "js_get (map Some (rk4_traj f p h t0 init k)) j = Some (rk4_traj f p h t0 init k ! j)"
    if "j < length init" for j k
    using that by (simp add: js_get_def)
  show ?thesis
    unfolding solveODE_def Let_def h_def [symmetric] tm_def [symmetric] st_def [symmetric] loop
    by (simp add: cell o_def)
qed

lemma solveODE_zero_points:
  "solveODE f init p t0 t1 0 =
     \<lparr> ode_time = [Some t0], ode_ys = map (\<lambda>j. [Some (init ! j)]) [0..<length init] \<rparr>"
  by (simp add: solveODE_def new_Array_def js_set_def js_get_def ode_loop.simps)

lemma solveODE_no_holes:
  "None \<notin> set (ode_time (solveODE f init p t0 t1 points)) \<and>
   (\<forall>y \<in> set (ode_ys (solveODE f init p t0 t1 points)). None \<notin> set y)"
proof (cases "points = 0")
  case True
  then show ?thesis by (auto simp: solveODE_zero_points)
next
  case False
  then have "1 \<le> points" by simp
  then show ?thesis by (auto simp: solveODE_closed)
qed






section \<open>Verification of the router\<close>

text \<open>
  Claim C10. The registry lookup comes before the validation: when the circuit's solver
  key has no registered model, or the registered entry has no derivative function,
  \<open>solve\<close> returns status \<open>unimplemented\<close> whatever the parameter set is, and never a
  validation error. (\<open>solve\<close> is \<open>solve_with models\<close>.)
\<close>

theorem solve_unimplemented_first:
  assumes "registry (solver c) = None \<or> (\<exists>m. registry (solver c) = Some m \<and> func m = None)"
  shows "solve_with registry c p = Unimplemented ''This circuit solver is not yet implemented.'' \<and>
         result_status (solve_with registry c p) = ''unimplemented'' \<and>
         (\<forall>msg. solve_with registry c p \<noteq> Error msg)"
  using assms by (auto simp: solve_with_def)

theorem solve_unimplemented_first_witness:
  "(models (solver \<lparr>cid = ''4-bridge'', order = 2, params = [''V'', ''R''], solver = ''solveBridge'',
                   transferFunction = ''''\<rparr>) = None \<or>
    (\<exists>m. models (solver \<lparr>cid = ''4-bridge'', order = 2, params = [''V'', ''R''], solver = ''solveBridge'',
                   transferFunction = ''''\<rparr>) = Some m \<and> func m = None)) \<and>
   solve \<lparr>cid = ''4-bridge'', order = 2, params = [''V'', ''R''], solver = ''solveBridge'',
          transferFunction = ''''\<rparr>
         \<lparr>nums = [''V'' \<mapsto> NaN], inputType = ''Step''\<rparr>
     = Unimplemented ''This circuit solver is not yet implemented.''"
proof -
  have h: "models (solver \<lparr>cid = ''4-bridge'', order = 2, params = [''V'', ''R''], solver = ''solveBridge'',
                   transferFunction = ''''\<rparr>) = None"
    by (simp add: models_def)
  show ?thesis
    using h solve_unimplemented_first [of models _ "\<lparr>nums = [''V'' \<mapsto> NaN], inputType = ''Step''\<rparr>", OF disjI1, OF h]
    by (simp add: solve_def)
qed

lemma invalid_param_None:
  "invalid_param c p = None \<longleftrightarrow> (\<forall>k \<in> set (params c). nums p k \<noteq> None \<and> nums p k \<noteq> Some NaN)"
proof -
  have "(case nums p k of None \<Rightarrow> True | Some v \<Rightarrow> isNaN v) \<longleftrightarrow> (nums p k = None \<or> nums p k = Some NaN)" for k
    by (cases "nums p k") (auto elim: isNaN.elims)
  then show ?thesis by (auto simp: invalid_param_def find_None_iff)
qed

text \<open>
  Claim C2, for a circuit with a registered model and with \<open>NaN\<close> in place of
  non-finite. If a required parameter is absent or \<open>NaN\<close>, \<open>solve\<close> returns an error
  whose message names the first such parameter in the declared order, and carries no
  computed result; otherwise (every required parameter is present and is not \<open>NaN\<close>,
  an infinity included) there is no validation error and the simulation runs.
\<close>

theorem solve_validation:
  assumes "registry (solver c) = Some m" and "func m = Some f"
  shows "if \<exists>k \<in> set (params c). nums p k = None \<or> nums p k = Some NaN
         then \<exists>i < length (params c).
                (nums p (params c ! i) = None \<or> nums p (params c ! i) = Some NaN) \<and>
                (\<forall>j < i. nums p (params c ! j) \<noteq> None \<and> nums p (params c ! j) \<noteq> Some NaN) \<and>
                solve_with registry c p = Error (''Invalid or missing parameter: '' @ params c ! i)
         else solve_with registry c p = Complete (simulate c m f p)"
proof (cases "invalid_param c p")
  case None
  then have "\<forall>k \<in> set (params c). nums p k \<noteq> None \<and> nums p k \<noteq> Some NaN"
    by (simp add: invalid_param_None)
  then show ?thesis
    using assms None by (auto simp: solve_with_def)
next
  case (Some k)
  have e: "(case nums p k of None \<Rightarrow> True | Some v \<Rightarrow> isNaN v) \<longleftrightarrow> (nums p k = None \<or> nums p k = Some NaN)" for k
    by (cases "nums p k") (auto elim: isNaN.elims)
  from Some obtain i where i: "i < length (params c)" "params c ! i = k"
      "nums p k = None \<or> nums p k = Some NaN"
      "\<forall>j < i. \<not> (nums p (params c ! j) = None \<or> nums p (params c ! j) = Some NaN)"
    unfolding invalid_param_def find_Some_iff e by blast
  have bad: "\<exists>k \<in> set (params c). nums p k = None \<or> nums p k = Some NaN"
    using i by (metis nth_mem)
  have "solve_with registry c p = Error (''Invalid or missing parameter: '' @ params c ! i)"
    using assms Some i by (simp add: solve_with_def)
  with i bad show ?thesis by auto
qed

lemma circuitDefinitions_nth:
  "circuitDefinitions ! 0 = \<lparr>cid = ''1-rc-charge'', order = 1, params = [''V'', ''R'', ''C''],
      solver = ''solveRcCharge'', transferFunction = ''1 / (1 + sRC)''\<rparr>"
  "circuitDefinitions ! 1 = \<lparr>cid = ''1-rl-energize'', order = 1, params = [''V'', ''R'', ''L''],
      solver = ''solveRlEnergize'', transferFunction = ''R / (R + sL)''\<rparr>"
  "circuitDefinitions ! 2 = \<lparr>cid = ''2-rlc-series'', order = 2, params = [''V'', ''R'', ''L'', ''C''],
      solver = ''solveRlcSeries'', transferFunction = ''(sRC) / (s^2LC + sRC + 1)''\<rparr>"
  by (simp_all add: circuitDefinitions_def)

lemma models_RcCharge: "\<exists>m. models ''solveRcCharge'' = Some m \<and> func m = Some rcOde"
  by (simp add: models_def)

theorem solve_validation_witness:
  "models (solver (circuitDefinitions ! 0)) = Some (the (models ''solveRcCharge'')) \<and>
   func (the (models ''solveRcCharge'')) = Some rcOde \<and>
   solve (circuitDefinitions ! 0) \<lparr>nums = [''V'' \<mapsto> Num 10, ''C'' \<mapsto> NaN], inputType = ''Step''\<rparr>
     = Error ''Invalid or missing parameter: R'' \<and>
   solve (circuitDefinitions ! 0)
         \<lparr>nums = [''V'' \<mapsto> Num 10, ''R'' \<mapsto> Num 1000, ''C'' \<mapsto> Num (1 / 10 ^ 6)], inputType = ''Step''\<rparr>
     = Complete (simulate (circuitDefinitions ! 0) (the (models ''solveRcCharge'')) rcOde
         \<lparr>nums = [''V'' \<mapsto> Num 10, ''R'' \<mapsto> Num 1000, ''C'' \<mapsto> Num (1 / 10 ^ 6)], inputType = ''Step''\<rparr>)"
proof -
  have h1: "models (solver (circuitDefinitions ! 0)) = Some (the (models ''solveRcCharge''))"
    and h2: "func (the (models ''solveRcCharge'')) = Some rcOde"
    using models_RcCharge by (auto simp: circuitDefinitions_nth)
  have pc: "params (circuitDefinitions ! 0) = [''V'', ''R'', ''C'']"
    by (simp add: circuitDefinitions_nth)
  show ?thesis
    using h1 h2
      solve_validation [of models "circuitDefinitions ! 0" "the (models ''solveRcCharge'')" rcOde
        "\<lparr>nums = [''V'' \<mapsto> Num 10, ''C'' \<mapsto> NaN], inputType = ''Step''\<rparr>", OF h1 h2]
      solve_validation [of models "circuitDefinitions ! 0" "the (models ''solveRcCharge'')" rcOde
        "\<lparr>nums = [''V'' \<mapsto> Num 10, ''R'' \<mapsto> Num 1000, ''C'' \<mapsto> Num (1 / 10 ^ 6)], inputType = ''Step''\<rparr>", OF h1 h2]
    unfolding pc solve_def
    by (auto simp: less_Suc_eq numeral_3_eq_3)
qed

text \<open>
  Claim C2 as stated also rejects an infinite parameter. The validation tests
  \<open>isNaN\<close> only: with \<open>R = Infinity\<close> the RC circuit is simulated and the status is
  \<open>complete\<close>.
\<close>

theorem solve_infinite_parameter_counterexample:
  "result_status (solve (circuitDefinitions ! 0)
     \<lparr>nums = [''V'' \<mapsto> Num 10, ''R'' \<mapsto> PosInf, ''C'' \<mapsto> Num (1 / 10 ^ 6)], inputType = ''Step''\<rparr>)
   = ''complete''"
  by (simp add: solve_def solve_with_def circuitDefinitions_nth models_def invalid_param_def)

lemma solve_Complete_simulate:
  "solve c p = Complete r \<Longrightarrow> \<exists>m f. models (solver c) = Some m \<and> func m = Some f \<and> r = simulate c m f p"
  by (auto simp: solve_def solve_with_def split: option.splits)

text \<open>
  Claim C9. The steady-state value of a completed simulation: for Step input it is
  \<open>V\<close> for the RC-charge, series RLC and the two composite series circuits, \<open>V / R\<close>
  for RL-energize (\<open>0\<close> when \<open>R \<le> 0\<close>) and \<open>V * R\<close> for the parallel RLC; for any
  other input kind (Ramp, Sine) it is \<open>0\<close>.
\<close>

theorem solve_finalValue:
  assumes "solve c p = Complete r"
    and "nums p ''V'' = Some (Num V)" and "nums p ''R'' = Some (Num R)"
  shows "(inputType p = ''Step'' \<and>
            cid c \<in> {''1-rc-charge'', ''2-rlc-series'', ''3-rllc-series'', ''3-rlcc-series''}
              \<longrightarrow> finalValue r = V) \<and>
         (inputType p = ''Step'' \<and> cid c = ''1-rl-energize''
              \<longrightarrow> finalValue r = (if R > 0 then V / R else 0)) \<and>
         (inputType p = ''Step'' \<and> cid c = ''2-rlc-parallel'' \<longrightarrow> finalValue r = V * R) \<and>
         (inputType p \<noteq> ''Step'' \<longrightarrow> finalValue r = 0)"
proof -
  from assms(1) obtain m f where r: "r = simulate c m f p"
    using solve_Complete_simulate by blast
  have fv: "finalValue r = router_finalValue c p"
    by (simp add: r simulate_def Let_def)
  have n: "num p ''V'' = V" "num p ''R'' = R"
    using assms(2,3) by (simp_all add: num_def)
  show ?thesis
    unfolding fv router_finalValue_def Let_def n
    by (auto simp: )
qed

theorem solve_finalValue_witness:
  "\<exists>r. solve (circuitDefinitions ! 1)
         \<lparr>nums = [''V'' \<mapsto> Num 10, ''R'' \<mapsto> Num 10, ''L'' \<mapsto> Num (1 / 100), ''tEnd'' \<mapsto> Num (5 / 1000)],
          inputType = ''Step''\<rparr> = Complete r \<and>
       finalValue r = 1"
proof -
  let ?p = "\<lparr>nums = [''V'' \<mapsto> Num 10, ''R'' \<mapsto> Num 10, ''L'' \<mapsto> Num (1 / 100), ''tEnd'' \<mapsto> Num (5 / 1000)],
          inputType = ''Step''\<rparr>"
  obtain r where r: "solve (circuitDefinitions ! 1) ?p = Complete r"
    unfolding circuitDefinitions_nth
    by (simp add: solve_def solve_with_def models_def invalid_param_def)
  have "finalValue r = 1"
    using solve_finalValue [OF r, of 10 10] unfolding circuitDefinitions_nth by simp
  with r show ?thesis by blast
qed

lemma getVin_set_num [simp]:
  "k \<noteq> ''V'' \<Longrightarrow> k \<noteq> ''Freq'' \<Longrightarrow> getVin t (set_num p k x) = getVin t p"
  by (simp add: getVin_def set_num_def num_def)

lemma num_set_num [simp]:
  "num (set_num p k x) k' = (if k' = k then x else num p k')"
  by (simp add: set_num_def num_def)








lemma length_generateFrequencyVector [simp]:
  "length (generateFrequencyVector fMin fMax points) = points"
  by (simp add: generateFrequencyVector_def Let_def)

lemma invalid_param_tf [simp]:
  "invalid_param (c\<lparr>transferFunction := tf\<rparr>) p = invalid_param c p"
  by (simp add: invalid_param_def)

lemma router_poles_tf [simp]:
  "router_poles (c\<lparr>transferFunction := tf\<rparr>) p = router_poles c p"
  by (simp add: router_poles_def)

lemma router_finalValue_tf [simp]:
  "router_finalValue (c\<lparr>transferFunction := tf\<rparr>) p = router_finalValue c p"
  by (simp add: router_finalValue_def)





section \<open>Verification of the pole and stability analyzer\<close>


text \<open>
  Claim C3. For \<open>R > 0\<close>, \<open>L > 0\<close>, \<open>C > 0\<close> the analyzer forms \<open>b = R / L\<close> and
  \<open>c = 1 / (L * C)\<close> and returns exactly two poles: two real poles
  \<open>(- b \<plusminus> sqrt (b\<^sup>2 - 4 c)) / 2\<close> when the discriminant is not negative, otherwise the
  conjugate pair with real part \<open>- b / 2\<close> and imaginary parts \<open>\<plusminus> sqrt (4 c - b\<^sup>2) / 2\<close>.
  As complex numbers the poles have sum \<open>- R / L\<close> and product \<open>1 / (L * C)\<close>.
\<close>

theorem series_poles:
  assumes "R > 0" and "L > 0" and "C > 0"
  shows "let b = R / L; c = 1 / (L * C);
             ps = pz_poles (calculatePolesAndStability R L C)
         in length ps = 2 \<and>
            (b\<^sup>2 - 4 * c \<ge> 0 \<longrightarrow>
               ps = [\<lparr>re = (- b + sqrt (b\<^sup>2 - 4 * c)) / 2, im = 0\<rparr>,
                     \<lparr>re = (- b - sqrt (b\<^sup>2 - 4 * c)) / 2, im = 0\<rparr>]) \<and>
            (b\<^sup>2 - 4 * c < 0 \<longrightarrow>
               ps = [\<lparr>re = - b / 2, im = sqrt (4 * c - b\<^sup>2) / 2\<rparr>,
                     \<lparr>re = - b / 2, im = - sqrt (4 * c - b\<^sup>2) / 2\<rparr>]) \<and>
            Complex (re (ps ! 0)) (im (ps ! 0)) + Complex (re (ps ! 1)) (im (ps ! 1))
              = complex_of_real (- R / L) \<and>
            Complex (re (ps ! 0)) (im (ps ! 0)) * Complex (re (ps ! 1)) (im (ps ! 1))
              = complex_of_real (1 / (L * C))"
proof -
  define b where "b = R / L"
  define c where "c = 1 / (L * C)"
  define d where "d = b\<^sup>2 - 4 * c"
  have g: "\<not> (L = 0 \<or> C = 0 \<or> L \<le> 0 \<or> C \<le> 0)"
    using assms by simp
  have bb: "b * b - 4 * c = d" by (simp add: d_def power2_eq_square)
  have ps: "pz_poles (calculatePolesAndStability R L C) =
      (if d \<ge> 0 then [\<lparr>re = (- b + sqrt d) / 2, im = 0\<rparr>, \<lparr>re = (- b - sqrt d) / 2, im = 0\<rparr>]
       else [\<lparr>re = - b / 2, im = sqrt (- d) / 2\<rparr>, \<lparr>re = - b / 2, im = - sqrt (- d) / 2\<rparr>])"
    unfolding calculatePolesAndStability_def Let_def b_def [symmetric] c_def [symmetric] bb
    using g by simp
  have nd: "4 * c - b\<^sup>2 = - d" by (simp add: d_def)
  show ?thesis
  proof (cases "d \<ge> 0")
    case True
    then have sq: "sqrt d * sqrt d = d" by simp
    have prod: "(- b + sqrt d) / 2 * ((- b - sqrt d) / 2) = c"
    proof -
      have "(- b + sqrt d) / 2 * ((- b - sqrt d) / 2) = (b * b - sqrt d * sqrt d) / 4"
        by (simp add: algebra_simps)
      also have "\<dots> = c" unfolding sq by (simp add: d_def power2_eq_square)
      finally show ?thesis .
    qed
    have sum: "(- b + sqrt d) / 2 + (- b - sqrt d) / 2 = - b" by (simp add: field_simps)
    show ?thesis
      unfolding Let_def b_def [symmetric] c_def [symmetric] d_def [symmetric] nd ps
      using True prod sum
      by (simp add: complex_eq_iff) (simp add: b_def c_def)
  next
    case False
    then have sq: "sqrt (- d) * sqrt (- d) = - d" by simp
    have prod: "(- b / 2) * (- b / 2) + (sqrt (- d) / 2) * (sqrt (- d) / 2) = c"
    proof -
      have "(- b / 2) * (- b / 2) + (sqrt (- d) / 2) * (sqrt (- d) / 2)
            = (b * b + sqrt (- d) * sqrt (- d)) / 4"
        by (simp add: algebra_simps)
      also have "\<dots> = c" unfolding sq by (simp add: d_def power2_eq_square)
      finally show ?thesis .
    qed
    show ?thesis
      unfolding Let_def b_def [symmetric] c_def [symmetric] d_def [symmetric] nd ps
      using False prod
      by (simp add: complex_eq_iff) (simp add: b_def c_def)
  qed
qed

theorem series_poles_witness:
  "(0::real) < 3 \<and> (0::real) < 1 \<and> (0::real) < 1 / 2 \<and>
   pz_poles (calculatePolesAndStability 3 1 (1 / 2)) = [\<lparr>re = - 1, im = 0\<rparr>, \<lparr>re = - 2, im = 0\<rparr>]"
  using series_poles [of 3 1 "1 / 2"]
  by (simp add: Let_def)











section \<open>Verification of the frequency vector and of the settling time\<close>

lemma log10_million: "log 10 (1000000::real) = 6"
proof -
  have "log 10 ((10::real) ^ 6) = real 6 * log 10 10"
    by (rule log_nat_power) simp
  then show ?thesis by simp
qed

lemma default_frequency_nth:
  "i < 500 \<Longrightarrow> generateFrequencyVector 1 1000000 500 ! i = 10 powr (real i * (6 / 499))"
  by (simp add: generateFrequencyVector_def Let_def log10_million)

text \<open>
  Claim C5. The frequency vector of every sweep is \<open>generateFrequencyVector 1 1000000 500\<close>:
  500 points from 1 Hz to 1 MHz, point \<open>i\<close> being
  \<open>10 powr (log10 fMin + i * (log10 fMax - log10 fMin) / (points - 1))\<close>; it is strictly
  increasing and the difference of \<open>log10\<close> of adjacent points is the constant \<open>6 / 499\<close>.
\<close>

theorem frequency_vector:
  "let f = generateFrequencyVector 1 1000000 500
   in b_freq (solveFrequencyResponse c p) = f \<and>
      length f = 500 \<and> f ! 0 = 1 \<and> f ! 499 = 1000000 \<and>
      (\<forall>i<500. f ! i = 10 powr (log 10 1 + real i * (log 10 1000000 - log 10 1) / (500 - 1))) \<and>
      (\<forall>i<499. f ! i < f ! (i + 1)) \<and>
      (\<forall>i<499. log 10 (f ! (i + 1)) - log 10 (f ! i) = 6 / 499)"
proof -
  let ?f = "generateFrequencyVector 1 1000000 500"
  have fr: "b_freq (solveFrequencyResponse c p) = ?f"
    by (simp add: solveFrequencyResponse_def Let_def split: option.splits)
  have len: "length ?f = 500"
    by (simp add: generateFrequencyVector_def Let_def)
  have f0: "?f ! 0 = 1"
    by (simp add: default_frequency_nth)
  have "?f ! 499 = 10 powr 6"
    by (simp add: default_frequency_nth)
  also have "\<dots> = 1000000"
    using powr_numeral [of 10 "num.Bit0 (num.Bit1 num.One)"] by simp
  finally have f499: "?f ! 499 = 1000000" .
  have form: "?f ! i = 10 powr (log 10 1 + real i * (log 10 1000000 - log 10 1) / (500 - 1))"
    if "i < 500" for i
    using that by (simp add: default_frequency_nth log10_million)
  have inc: "?f ! i < ?f ! (i + 1)" if "i < 499" for i
  proof -
    have "real i * (6 / 499) < real (i + 1) * (6 / 499)" by simp
    then show ?thesis
      using that by (simp add: default_frequency_nth del: of_nat_add of_nat_Suc)
  qed
  have step: "log 10 (?f ! (i + 1)) - log 10 (?f ! i) = 6 / 499" if "i < 499" for i
    using that by (simp add: default_frequency_nth algebra_simps)
  show ?thesis
    unfolding Let_def using fr len f0 f499 form inc step by blast
qed

theorem frequency_vector_witness:
  "length (generateFrequencyVector 1 1000000 500) = 500 \<and>
   generateFrequencyVector 1 1000000 500 ! 0 < generateFrequencyVector 1 1000000 500 ! 1 \<and>
   log 10 (generateFrequencyVector 1 1000000 500 ! 1) - log 10 (generateFrequencyVector 1 1000000 500 ! 0)
     = 6 / 499"
proof -
  let ?f = "generateFrequencyVector 1 1000000 500"
  from frequency_vector [of "circuitDefinitions ! 0" "\<lparr>nums = Map.empty, inputType = ''Step''\<rparr>"]
  have a: "length ?f = 500" and b: "\<forall>i<499. ?f ! i < ?f ! (i + 1)"
    and c: "\<forall>i<499. log 10 (?f ! (i + 1)) - log 10 (?f ! i) = 6 / 499"
    unfolding Let_def by blast+
  have "?f ! 0 < ?f ! (0 + 1)" using b by (rule allE [of _ 0]) simp
  moreover have "log 10 (?f ! (0 + 1)) - log 10 (?f ! 0) = 6 / 499"
    using c by (rule allE [of _ 0]) simp
  ultimately show ?thesis using a by simp
qed

lemma settle_scan_None:
  "(\<forall>i<m. \<not> outside_band signal final i) \<Longrightarrow> settle_scan tms signal final m = None"
  by (induction m) simp_all

lemma settle_scan_Some:
  "k < m \<Longrightarrow> outside_band signal final k \<Longrightarrow>
   (\<forall>i. k < i \<and> i < m \<longrightarrow> \<not> outside_band signal final i) \<Longrightarrow>
   settle_scan tms signal final m = Some (tms ! (if k + 1 < length tms then k + 1 else k))"
proof (induction m)
  case 0
  then show ?case by simp
next
  case (Suc m)
  show ?case
  proof (cases "outside_band signal final m")
    case True
    have "k = m"
    proof (rule ccontr)
      assume "k \<noteq> m"
      with Suc.prems(1) have "k < m" by simp
      with Suc.prems(3) True show False by simp
    qed
    with True show ?thesis by simp
  next
    case False
    with Suc.prems(1,2) have "k < m" by (metis less_antisym)
    with Suc False show ?thesis by simp
  qed
qed

text \<open>
  Claim C8, as the code has it. If no sample is outside the band
  \<open>[0.98 * final, 1.02 * final]\<close>, the settling time is the first sample's time. Otherwise,
  with \<open>k\<close> the last index whose sample is outside the band, it is the time of sample
  \<open>k + 1\<close>, or of sample \<open>k\<close> when \<open>k\<close> is the last index. When the last sample is within
  the band, the reported time is that of the earliest sample from which on every
  remaining sample is within the band.
\<close>

theorem settlingTime_scan:
  "((\<forall>i < length tms. \<not> outside_band signal final i) \<longrightarrow>
      settlingTime tms signal final = (if tms = [] then None else Some (tms ! 0))) \<and>
   (\<forall>k < length tms.
      outside_band signal final k \<and>
      (\<forall>i. k < i \<and> i < length tms \<longrightarrow> \<not> outside_band signal final i) \<longrightarrow>
      settlingTime tms signal final = Some (tms ! (if k + 1 < length tms then k + 1 else k))) \<and>
   (tms \<noteq> [] \<and> \<not> outside_band signal final (length tms - 1) \<longrightarrow>
      (\<exists>j < length tms.
         settlingTime tms signal final = Some (tms ! j) \<and>
         (\<forall>i. j \<le> i \<and> i < length tms \<longrightarrow> \<not> outside_band signal final i) \<and>
         (\<forall>j' < j. \<exists>i. j' \<le> i \<and> i < length tms \<and> outside_band signal final i)))"
proof -
  let ?n = "length tms"
  let ?out = "outside_band signal final"
  have none: "settlingTime tms signal final = (if tms = [] then None else Some (tms ! 0))"
    if "\<forall>i < ?n. \<not> ?out i"
    using that by (simp add: settlingTime_def settle_scan_None)
  have some: "settlingTime tms signal final = Some (tms ! (if k + 1 < ?n then k + 1 else k))"
    if "k < ?n" "?out k" "\<forall>i. k < i \<and> i < ?n \<longrightarrow> \<not> ?out i" for k
    using that by (simp add: settlingTime_def settle_scan_Some [of k ?n signal final tms])
  have settled: "\<exists>j < ?n. settlingTime tms signal final = Some (tms ! j) \<and>
         (\<forall>i. j \<le> i \<and> i < ?n \<longrightarrow> \<not> ?out i) \<and>
         (\<forall>j' < j. \<exists>i. j' \<le> i \<and> i < ?n \<and> ?out i)"
    if ne: "tms \<noteq> []" and last: "\<not> ?out (?n - 1)"
  proof (cases "\<forall>i < ?n. \<not> ?out i")
    case True
    with none ne have "settlingTime tms signal final = Some (tms ! 0)" by simp
    with True ne show ?thesis by (intro exI [of _ 0]) simp
  next
    case False
    then have ex: "\<exists>i. i < ?n \<and> ?out i" by blast
    define k where "k = (GREATEST i. i < ?n \<and> ?out i)"
    from ex obtain i0 where i0: "i0 < ?n \<and> ?out i0" by blast
    have k: "k < ?n \<and> ?out k"
      unfolding k_def
      by (rule GreatestI_nat [of "\<lambda>i. i < ?n \<and> ?out i" i0 ?n]) (use i0 in simp_all)
    have kmax: "i \<le> k" if "i < ?n \<and> ?out i" for i
      unfolding k_def
      by (rule Greatest_le_nat [of "\<lambda>i. i < ?n \<and> ?out i" i ?n]) (use that in simp_all)
    have after: "\<forall>i. k < i \<and> i < ?n \<longrightarrow> \<not> ?out i"
      using kmax by (meson not_le)
    have "k \<noteq> ?n - 1" using k last by metis
    with k have k1: "k + 1 < ?n" by arith
    have st: "settlingTime tms signal final = Some (tms ! (k + 1))"
      using some [of k] k after k1 by simp
    have "\<forall>i. k + 1 \<le> i \<and> i < ?n \<longrightarrow> \<not> ?out i"
      using after by simp
    moreover have "\<forall>j' < k + 1. \<exists>i. j' \<le> i \<and> i < ?n \<and> ?out i"
      using k by (metis Suc_eq_plus1 less_Suc_eq_le)
    ultimately show ?thesis
      using st k1 by blast
  qed
  show ?thesis
    using none some settled by blast
qed

theorem settlingTime_scan_witness:
  "settlingTime [0, 1, 2, 3] [0, 2, 1, 1] 1 = Some 2 \<and>
   settlingTime [0, 1, 2] [1, 1, 1] 1 = Some 0"
proof -
  have o: "\<not> outside_band [0, 2, 1, 1] 1 i" if "1 < i" for i
  proof -
    have "i = 2 \<or> i = 3 \<or> 4 \<le> i" using that by arith
    then show ?thesis by (auto simp: outside_band_def)
  qed
  have a: "settlingTime [0, 1, 2, 3] [0, 2, 1, 1] 1 = Some 2"
    using settlingTime_scan [of "[0, 1, 2, 3]" "[0, 2, 1, 1]" 1, THEN conjunct2, THEN conjunct1,
        THEN spec, of 1] o
    by (simp add: outside_band_def)
  have b: "settlingTime [0, 1, 2] [1, 1, 1] 1 = Some 0"
    using settlingTime_scan [of "[0, 1, 2]" "[1, 1, 1]" 1, THEN conjunct1]
    by (simp add: outside_band_def nth_Cons')
  from a b show ?thesis by simp
qed

text \<open>
  Claim C8 as stated makes the reported time, for every time series, the earliest time
  after which every remaining sample is within the band. For the signal \<open>[0, 0]\<close> and
  final value \<open>1\<close> the last sample's time \<open>1\<close> is reported and that sample is outside the
  band: the signal never settles. (Reading "after" strictly does not help: for the
  signal \<open>[0, 1, 1]\<close> every sample after time \<open>0\<close> is within the band, and time \<open>1\<close> is
  reported.)
\<close>

theorem settlingTime_never_settled_counterexample:
  "settlingTime [0, 1] [0, 0] 1 = Some 1 \<and> outside_band [0, 0] 1 1 \<and>
   settlingTime [0, 1, 2] [0, 1, 1] 1 = Some 1 \<and>
   \<not> outside_band [0, 1, 1] 1 1 \<and> \<not> outside_band [0, 1, 1] 1 2"
  by (simp add: settlingTime_def outside_band_def numeral_2_eq_2 numeral_3_eq_3)

end
